theory Spec2Isabelle
  imports Complex_Main "HOL-Library.Multiset"
begin

section \<open>The review service of fastapi-shop (app/routers/reviews.py)\<close>

text \<open>
  The router has four handlers over two tables: \<open>get_all_reviews\<close>,
  \<open>get_reviews_by_product\<close>, \<open>create_reviews\<close> and \<open>delete_reviews\<close>. Each handler is
  embedded as a function from the committed state of the database to a result and
  the committed state the handler leaves behind. An exception is the left injection
  of the result; the state paired with it holds whatever was committed before the
  exception was raised.
\<close>

subsection \<open>Rows, request bodies and the store\<close>

text \<open>
  The ORM models and the request schema are declared outside the router; the fields
  below are the ones the router reads and writes. The column \<open>id\<close> is written \<open>id'\<close>.
  Python's unbounded integers are \<open>int\<close>. The float column \<open>rating\<close> is held as an
  exact real number: the rounding of the database's floating point is not modelled.
\<close>

record ReviewModel =
  id' :: int
  comment :: string
  grade :: int
  user_id :: int
  product_id :: int
  comment_date :: int
  is_active :: bool

record ProductModel =
  id' :: int
  is_active :: bool
  rating :: real

record UserModel =
  id' :: int
  role :: string

record ReviewCreate =
  product_id :: int
  comment :: string
  grade :: int

text \<open>
  A table is the list of its rows in storage order. The primary key of the reviews
  table is not enforced by the type; the theorems that depend on it assume that the
  identifiers of the stored reviews are distinct.
\<close>

record store =
  reviews :: "ReviewModel list"
  products :: "ProductModel list"

subsection \<open>Exceptions\<close>

datatype status = HTTP_403_FORBIDDEN | HTTP_404_NOT_FOUND | HTTP_422_UNPROCESSABLE_CONTENT

text \<open>
  \<open>HTTPException\<close> carries the status code and the detail string. \<open>AttributeError\<close> is
  what Python raises for \<open>product.rating = ...\<close> when \<open>db.get\<close> returned \<open>None\<close>.
\<close>

datatype error = HTTPException status string | AttributeError

subsection \<open>Queries\<close>

text \<open>
  \<open>select(ProductModel).where(ProductModel.id == pk, ProductModel.is_active == True)\<close>
  followed by \<open>.first()\<close>.
\<close>

definition first_active_product :: "int \<Rightarrow> ProductModel list \<Rightarrow> ProductModel option" where
  "first_active_product pk ps =
     find (\<lambda>p. ProductModel.id' p = pk \<and> ProductModel.is_active p = True) ps"

text \<open>
  \<open>select(ReviewModel).where(ReviewModel.id == pk, ReviewModel.is_active == True)\<close>
  followed by \<open>.first()\<close>.
\<close>

definition first_active_review :: "int \<Rightarrow> ReviewModel list \<Rightarrow> ReviewModel option" where
  "first_active_review pk rs =
     find (\<lambda>r. ReviewModel.id' r = pk \<and> ReviewModel.is_active r = True) rs"

text \<open>
  The rows selected by
  \<open>where(ReviewModel.product_id == pk, ReviewModel.is_active == True)\<close>.
\<close>

definition active_reviews_of :: "int \<Rightarrow> ReviewModel list \<Rightarrow> ReviewModel list" where
  "active_reviews_of pk rs =
     filter (\<lambda>r. ReviewModel.product_id r = pk \<and> ReviewModel.is_active r = True) rs"

text \<open>\<open>func.avg\<close>: SQL's AVG is NULL (Python's \<open>None\<close>) over no rows.\<close>

definition avg :: "int list \<Rightarrow> real option" where
  "avg gs = (if gs = [] then None else Some (real_of_int (sum_list gs) / real (length gs)))"

text \<open>\<open>result.scalar() or 0.0\<close>: \<open>None\<close> and zero are both falsy in Python.\<close>

definition scalar_or_zero :: "real option \<Rightarrow> real" where
  "scalar_or_zero a = (case a of None \<Rightarrow> 0 | Some x \<Rightarrow> if x = 0 then 0 else x)"

definition avg_rating :: "int \<Rightarrow> ReviewModel list \<Rightarrow> real" where
  "avg_rating pk rs = scalar_or_zero (avg (map ReviewModel.grade (active_reviews_of pk rs)))"

text \<open>\<open>db.get(ProductModel, pk)\<close>: lookup by primary key, whatever \<open>is_active\<close> is.\<close>

definition db_get :: "int \<Rightarrow> ProductModel list \<Rightarrow> ProductModel option" where
  "db_get pk ps = find (\<lambda>p. ProductModel.id' p = pk) ps"

text \<open>
  \<open>product.rating = avg_rating\<close> and the commit: the ORM flushes it as an UPDATE of
  the column \<open>rating\<close> on the row whose primary key is \<open>pk\<close>.
\<close>

definition set_rating :: "int \<Rightarrow> real \<Rightarrow> ProductModel list \<Rightarrow> ProductModel list" where
  "set_rating pk v ps =
     map (\<lambda>p. if ProductModel.id' p = pk then p\<lparr>ProductModel.rating := v\<rparr> else p) ps"

text \<open>\<open>update(ReviewModel).where(ReviewModel.id == pk).values(is_active=False)\<close>.\<close>

definition soft_delete :: "int \<Rightarrow> ReviewModel list \<Rightarrow> ReviewModel list" where
  "soft_delete pk rs =
     map (\<lambda>r. if ReviewModel.id' r = pk then r\<lparr>ReviewModel.is_active := False\<rparr> else r) rs"

text \<open>
  \<open>order_by(ReviewModel.comment_date.desc())\<close>. SQL leaves the order of rows with equal
  keys open; the model fixes one such order.
\<close>

definition order_by_desc :: "ReviewModel list \<Rightarrow> ReviewModel list" where
  "order_by_desc rs = rev (sort_key ReviewModel.comment_date rs)"

subsection \<open>The handlers\<close>

definition get_all_reviews :: "store \<Rightarrow> ReviewModel list \<times> store" where
  "get_all_reviews db = (filter (\<lambda>r. ReviewModel.is_active r = True) (reviews db), db)"

definition get_reviews_by_product :: "int \<Rightarrow> store \<Rightarrow> (error + ReviewModel list) \<times> store" where
  "get_reviews_by_product pid db =
     (case first_active_product pid (products db) of
        None \<Rightarrow> (Inl (HTTPException HTTP_404_NOT_FOUND ''Product not found or inactive''), db)
      | Some product \<Rightarrow> (Inr (order_by_desc (active_reviews_of pid (reviews db))), db))"

text \<open>
  The detail of the 422 response contains an en dash (U+2013), written here as its
  three UTF-8 bytes.
\<close>

definition grade_detail :: string where
  "grade_detail = ''Grade out of the range 1'' @ [CHR 0xE2, CHR 0x80, CHR 0x93] @ ''5''"

text \<open>
  \<open>create_reviews\<close>. The identifier and the \<open>comment_date\<close> of the new row are column
  defaults assigned by the database on insert (the model declaring them is not part
  of the router), so they are the parameters \<open>new_id\<close> and \<open>now\<close>. The new row is
  committed before the rating is recomputed.
\<close>

definition create_reviews ::
  "int \<Rightarrow> int \<Rightarrow> ReviewCreate \<Rightarrow> UserModel \<Rightarrow> store \<Rightarrow> (error + ReviewModel) \<times> store" where
  "create_reviews new_id now review current_user db =
     (if role current_user \<noteq> ''buyer'' then
        (Inl (HTTPException HTTP_403_FORBIDDEN
                ''Only users with role 'buyer' can add reviews''), db)
      else
        case first_active_product (ReviewCreate.product_id review) (products db) of
          None \<Rightarrow> (Inl (HTTPException HTTP_404_NOT_FOUND ''Product not found or inactive''), db)
        | Some product \<Rightarrow>
            if ReviewCreate.grade review < 1 \<or> ReviewCreate.grade review > 5 then
              (Inl (HTTPException HTTP_422_UNPROCESSABLE_CONTENT grade_detail), db)
            else
              let new_review =
                    \<lparr>ReviewModel.id' = new_id,
                     ReviewModel.comment = ReviewCreate.comment review,
                     ReviewModel.grade = ReviewCreate.grade review,
                     ReviewModel.user_id = UserModel.id' current_user,
                     ReviewModel.product_id = ReviewCreate.product_id review,
                     ReviewModel.comment_date = now,
                     ReviewModel.is_active = True\<rparr>;
                  db1 = db\<lparr>reviews := reviews db @ [new_review]\<rparr>;
                  a = avg_rating (ReviewCreate.product_id review) (reviews db1)
              in case db_get (ReviewCreate.product_id review) (products db1) of
                   None \<Rightarrow> (Inl AttributeError, db1)
                 | Some product \<Rightarrow>
                     (Inr new_review,
                      db1\<lparr>products :=
                            set_rating (ReviewCreate.product_id review) a (products db1)\<rparr>))"

text \<open>
  \<open>delete_reviews\<close>. The soft deletion is committed before the rating is recomputed.
  \<open>db.refresh(review)\<close> reads the row again; the UPDATE changed only \<open>is_active\<close>, so
  \<open>review.product_id\<close> is the value read before it. The returned dictionary is an
  association list.
\<close>

definition delete_reviews ::
  "int \<Rightarrow> UserModel \<Rightarrow> store \<Rightarrow> (error + (string \<times> string) list) \<times> store" where
  "delete_reviews review_id current_user db =
     (if role current_user \<noteq> ''admin'' then
        (Inl (HTTPException HTTP_403_FORBIDDEN ''Only admins can delete reviews''), db)
      else
        case first_active_review review_id (reviews db) of
          None \<Rightarrow> (Inl (HTTPException HTTP_404_NOT_FOUND ''Reviews not found or inactive''), db)
        | Some review \<Rightarrow>
            let db1 = db\<lparr>reviews := soft_delete review_id (reviews db)\<rparr>;
                a = avg_rating (ReviewModel.product_id review) (reviews db1)
            in case db_get (ReviewModel.product_id review) (products db1) of
                 None \<Rightarrow> (Inl AttributeError, db1)
               | Some product \<Rightarrow>
                   (Inr [(''message'', ''Review deleted'')],
                    db1\<lparr>products :=
                          set_rating (ReviewModel.product_id review) a (products db1)\<rparr>))"

subsection \<open>The specification's vocabulary\<close>

text \<open>
  The rating the specification asks for, in the specification's words and
  independent of the queries above: the reviews counted are the stored rows whose
  \<open>product_id\<close> is the product and whose \<open>is_active\<close> is true; the rating is the sum of
  their grades divided by their number, and 0.0 when there is none.
\<close>

definition mean_active_grade :: "int \<Rightarrow> ReviewModel list \<Rightarrow> real" where
  "mean_active_grade pk rs =
     (let counted = filter (\<lambda>r. ReviewModel.product_id r = pk \<and> ReviewModel.is_active r) rs
      in if counted = [] then 0
         else (\<Sum>r\<leftarrow>counted. real_of_int (ReviewModel.grade r)) / real (length counted))"

definition ratings_consistent :: "store \<Rightarrow> bool" where
  "ratings_consistent db =
     list_all (\<lambda>p. ProductModel.rating p = mean_active_grade (ProductModel.id' p) (reviews db))
       (products db)"

definition product_available :: "int \<Rightarrow> store \<Rightarrow> bool" where
  "product_available pk db =
     list_ex (\<lambda>p. ProductModel.id' p = pk \<and> ProductModel.is_active p) (products db)"

definition review_available :: "int \<Rightarrow> store \<Rightarrow> bool" where
  "review_available pk db =
     list_ex (\<lambda>r. ReviewModel.id' r = pk \<and> ReviewModel.is_active r) (reviews db)"

text \<open>
  A request that changes the store, with the values the database assigns on insert;
  \<open>handle\<close> is the committed state a request leaves, whether it succeeds or fails.
\<close>

datatype request = Create int int ReviewCreate UserModel | Delete int UserModel

fun handle :: "request \<Rightarrow> store \<Rightarrow> store" where
  "handle (Create new_id now review current_user) db =
     snd (create_reviews new_id now review current_user db)"
| "handle (Delete review_id current_user) db = snd (delete_reviews review_id current_user db)"

fun assigned_ids :: "request list \<Rightarrow> int list" where
  "assigned_ids [] = []"
| "assigned_ids (Create new_id now review current_user # qs) = new_id # assigned_ids qs"
| "assigned_ids (Delete review_id current_user # qs) = assigned_ids qs"

subsection \<open>Example data\<close>

definition buyer :: UserModel where
  "buyer = \<lparr>UserModel.id' = 7, role = ''buyer''\<rparr>"

definition admin :: UserModel where
  "admin = \<lparr>UserModel.id' = 9, role = ''admin''\<rparr>"

definition review1 :: ReviewModel where
  "review1 = \<lparr>ReviewModel.id' = 1, comment = ''good'', grade = 4, user_id = 7,
              product_id = 1, comment_date = 100, is_active = True\<rparr>"

definition review2 :: ReviewModel where
  "review2 = \<lparr>ReviewModel.id' = 2, comment = ''poor'', grade = 2, user_id = 7,
              product_id = 1, comment_date = 101, is_active = True\<rparr>"

definition review3 :: ReviewModel where
  "review3 = \<lparr>ReviewModel.id' = 3, comment = ''old'', grade = 1, user_id = 7,
              product_id = 1, comment_date = 50, is_active = False\<rparr>"

definition review4 :: ReviewModel where
  "review4 = \<lparr>ReviewModel.id' = 4, comment = ''fine'', grade = 5, user_id = 8,
              product_id = 3, comment_date = 60, is_active = True\<rparr>"

definition body2 :: ReviewCreate where
  "body2 = \<lparr>ReviewCreate.product_id = 1, comment = ''poor'', grade = 2\<rparr>"

definition product1 :: "real \<Rightarrow> ProductModel" where
  "product1 x = \<lparr>ProductModel.id' = 1, is_active = True, rating = x\<rparr>"

definition product2 :: ProductModel where
  "product2 = \<lparr>ProductModel.id' = 2, is_active = False, rating = 0\<rparr>"

definition shop :: "ReviewModel list \<Rightarrow> real \<Rightarrow> store" where
  "shop rs x = \<lparr>reviews = rs, products = [product1 x, product2]\<rparr>"

definition product3 :: "real \<Rightarrow> ProductModel" where
  "product3 y = \<lparr>ProductModel.id' = 3, is_active = True, rating = y\<rparr>"

definition market :: "ReviewModel list \<Rightarrow> real \<Rightarrow> real \<Rightarrow> store" where
  "market rs x y = \<lparr>reviews = rs, products = [product1 x, product3 y]\<rparr>"

lemmas example_defs =
  buyer_def admin_def review1_def review2_def review3_def review4_def body2_def
  product1_def product2_def product3_def shop_def market_def

lemmas query_defs =
  first_active_product_def first_active_review_def active_reviews_of_def avg_def
  scalar_or_zero_def avg_rating_def db_get_def set_rating_def soft_delete_def

section \<open>Properties of the queries\<close>

lemma first_active_product_None:
  "first_active_product pk (products db) = None \<longleftrightarrow> \<not> product_available pk db"
  by (auto simp: first_active_product_def product_available_def find_None_iff list_ex_iff)

lemma first_active_review_None:
  "first_active_review pk (reviews db) = None \<longleftrightarrow> \<not> review_available pk db"
  by (auto simp: first_active_review_def review_available_def find_None_iff list_ex_iff)

lemma first_active_product_db_get:
  "first_active_product pk ps = Some p \<Longrightarrow> \<exists>q. db_get pk ps = Some q"
  by (induction ps) (auto simp: first_active_product_def db_get_def split: if_splits)

lemma first_active_review_Some:
  "first_active_review pk rs = Some r \<Longrightarrow>
     r \<in> set rs \<and> ReviewModel.id' r = pk \<and> ReviewModel.is_active r"
  by (induction rs) (auto simp: first_active_review_def split: if_splits)

lemma real_sum_list_grades:
  "real_of_int (sum_list (map ReviewModel.grade rs)) =
     sum_list (map (\<lambda>r. real_of_int (ReviewModel.grade r)) rs)"
  by (induction rs) simp_all

lemma avg_rating_mean: "avg_rating pk rs = mean_active_grade pk rs"
  by (simp add: avg_rating_def mean_active_grade_def active_reviews_of_def avg_def
        scalar_or_zero_def real_sum_list_grades Let_def)

lemma active_reviews_of_append_other:
  "ReviewModel.product_id r \<noteq> pk \<Longrightarrow> active_reviews_of pk (rs @ [r]) = active_reviews_of pk rs"
  by (simp add: active_reviews_of_def)

lemma active_reviews_of_soft_delete_other:
  "\<forall>r \<in> set rs. ReviewModel.id' r = rid \<longrightarrow> ReviewModel.product_id r \<noteq> pk \<Longrightarrow>
     active_reviews_of pk (soft_delete rid rs) = active_reviews_of pk rs"
  by (induction rs) (auto simp: active_reviews_of_def soft_delete_def)

lemma distinct_ids_unique:
  "distinct (map ReviewModel.id' rs) \<Longrightarrow> r \<in> set rs \<Longrightarrow> r' \<in> set rs \<Longrightarrow>
     ReviewModel.id' r = ReviewModel.id' r' \<Longrightarrow> r = r'"
  by (meson distinct_map inj_onD)

lemma mean_active_grade_cong:
  "active_reviews_of pk rs = active_reviews_of pk rs' \<Longrightarrow>
     mean_active_grade pk rs = mean_active_grade pk rs'"
  by (simp add: mean_active_grade_def active_reviews_of_def)

lemma ratings_consistent_set_rating:
  assumes "\<forall>p \<in> set ps. ProductModel.id' p \<noteq> pk \<longrightarrow>
             ProductModel.rating p = mean_active_grade (ProductModel.id' p) rs"
  shows "ratings_consistent \<lparr>reviews = rs, products = set_rating pk (avg_rating pk rs) ps\<rparr>"
  using assms
  by (auto simp: ratings_consistent_def set_rating_def list_all_iff avg_rating_mean)

section \<open>Outcomes of create and delete\<close>

lemma create_reviews_Inr:
  assumes "role current_user = ''buyer''"
      and "product_available (ReviewCreate.product_id review) db"
      and "1 \<le> ReviewCreate.grade review" and "ReviewCreate.grade review \<le> 5"
  shows "create_reviews new_id now review current_user db =
     (let new_review =
            \<lparr>ReviewModel.id' = new_id,
             ReviewModel.comment = ReviewCreate.comment review,
             ReviewModel.grade = ReviewCreate.grade review,
             ReviewModel.user_id = UserModel.id' current_user,
             ReviewModel.product_id = ReviewCreate.product_id review,
             ReviewModel.comment_date = now,
             ReviewModel.is_active = True\<rparr>
      in (Inr new_review,
          \<lparr>reviews = reviews db @ [new_review],
           products = set_rating (ReviewCreate.product_id review)
              (avg_rating (ReviewCreate.product_id review) (reviews db @ [new_review]))
              (products db)\<rparr>))"
proof -
  obtain p where p: "first_active_product (ReviewCreate.product_id review) (products db) = Some p"
    using assms(2) first_active_product_None [of "ReviewCreate.product_id review" db] by auto
  then obtain q where q: "db_get (ReviewCreate.product_id review) (products db) = Some q"
    using first_active_product_db_get by blast
  show ?thesis
    using assms(1,3,4) p q by (simp add: create_reviews_def Let_def)
qed

lemma create_reviews_Inr_D:
  assumes "fst (create_reviews new_id now review current_user db) = Inr r"
  shows "role current_user = ''buyer'' \<and> product_available (ReviewCreate.product_id review) db
         \<and> 1 \<le> ReviewCreate.grade review \<and> ReviewCreate.grade review \<le> 5"
  using assms first_active_product_None [of "ReviewCreate.product_id review" db]
  by (auto simp: create_reviews_def Let_def split: if_splits option.splits)

lemma delete_reviews_Inr:
  assumes "role current_user = ''admin''"
      and "first_active_review review_id (reviews db) = Some review"
      and "db_get (ReviewModel.product_id review) (products db) = Some p"
  shows "delete_reviews review_id current_user db =
     (Inr [(''message'', ''Review deleted'')],
      \<lparr>reviews = soft_delete review_id (reviews db),
       products = set_rating (ReviewModel.product_id review)
          (avg_rating (ReviewModel.product_id review) (soft_delete review_id (reviews db)))
          (products db)\<rparr>)"
  using assms by (simp add: delete_reviews_def Let_def)

lemma delete_reviews_Inr_D:
  assumes "fst (delete_reviews review_id current_user db) = Inr m"
  shows "role current_user = ''admin'' \<and>
         (\<exists>review p. first_active_review review_id (reviews db) = Some review \<and>
                 db_get (ReviewModel.product_id review) (products db) = Some p)"
  using assms
  by (auto simp: delete_reviews_def Let_def split: if_splits option.splits)

lemma delete_reviews_AttributeError:
  assumes "role current_user = ''admin''"
      and "first_active_review review_id (reviews db) = Some review"
      and "db_get (ReviewModel.product_id review) (products db) = None"
  shows "delete_reviews review_id current_user db =
     (Inl AttributeError, \<lparr>reviews = soft_delete review_id (reviews db), products = products db\<rparr>)"
  using assms by (simp add: delete_reviews_def Let_def)

lemma create_preserves_consistent:
  assumes "ratings_consistent db"
  shows "ratings_consistent (snd (create_reviews new_id now review current_user db))"
proof (cases "\<exists>r. fst (create_reviews new_id now review current_user db) = Inr r")
  case True
  then have ok: "role current_user = ''buyer''"
      "product_available (ReviewCreate.product_id review) db"
      "1 \<le> ReviewCreate.grade review" "ReviewCreate.grade review \<le> 5"
    using create_reviews_Inr_D by blast+
  have "\<forall>p \<in> set (products db). ProductModel.id' p \<noteq> ReviewCreate.product_id review \<longrightarrow>
          ProductModel.rating p = mean_active_grade (ProductModel.id' p) (reviews db @ [nr])"
    if "ReviewModel.product_id nr = ReviewCreate.product_id review" for nr
    using assms that
    by (auto simp: ratings_consistent_def list_all_iff
          intro!: mean_active_grade_cong active_reviews_of_append_other [symmetric])
  then show ?thesis
    by (simp add: create_reviews_Inr [OF ok] Let_def ratings_consistent_set_rating)
next
  case False
  then have "snd (create_reviews new_id now review current_user db) = db"
    using first_active_product_db_get
    by (fastforce simp: create_reviews_def Let_def split: if_splits option.splits)
  with assms show ?thesis by simp
qed

lemma soft_delete_ids: "map ReviewModel.id' (soft_delete rid rs) = map ReviewModel.id' rs"
  by (induction rs) (simp_all add: soft_delete_def)

lemma soft_delete_other_product:
  assumes "distinct (map ReviewModel.id' rs)"
      and "first_active_review rid rs = Some review"
      and "pk \<noteq> ReviewModel.product_id review"
  shows "active_reviews_of pk (soft_delete rid rs) = active_reviews_of pk rs"
proof (rule active_reviews_of_soft_delete_other, intro ballI impI)
  fix r assume r: "r \<in> set rs" "ReviewModel.id' r = rid"
  have "review \<in> set rs" "ReviewModel.id' review = rid"
    using first_active_review_Some [OF assms(2)] by simp_all
  with r assms(1) have "r = review"
    using distinct_ids_unique by metis
  with assms(3) show "ReviewModel.product_id r \<noteq> pk" by simp
qed

lemma db_get_None: "db_get pk ps = None \<Longrightarrow> \<forall>p \<in> set ps. ProductModel.id' p \<noteq> pk"
  by (simp add: db_get_def find_None_iff)

lemma delete_preserves_consistent:
  assumes "ratings_consistent db" and "distinct (map ReviewModel.id' (reviews db))"
  shows "ratings_consistent (snd (delete_reviews review_id current_user db))"
proof (cases "role current_user = ''admin''")
  case False
  with assms(1) show ?thesis by (simp add: delete_reviews_def)
next
  case admin: True
  show ?thesis
  proof (cases "first_active_review review_id (reviews db)")
    case None
    with assms(1) show ?thesis by (simp add: delete_reviews_def)
  next
    case (Some review)
    have other: "\<forall>p \<in> set (products db). ProductModel.id' p \<noteq> ReviewModel.product_id review \<longrightarrow>
        ProductModel.rating p
          = mean_active_grade (ProductModel.id' p) (soft_delete review_id (reviews db))"
      using assms(1) soft_delete_other_product [OF assms(2) Some]
      by (auto simp: ratings_consistent_def list_all_iff intro!: mean_active_grade_cong)
    show ?thesis
    proof (cases "db_get (ReviewModel.product_id review) (products db)")
      case None
      with other db_get_None [OF None] show ?thesis
        by (simp add: delete_reviews_AttributeError [OF admin Some None]
              ratings_consistent_def list_all_iff)
    next
      case (Some p)
      with other show ?thesis
        by (simp add: delete_reviews_Inr [OF admin \<open>first_active_review review_id (reviews db) = Some review\<close> Some]
              ratings_consistent_set_rating)
    qed
  qed
qed

lemma create_reviews_ids:
  "map ReviewModel.id' (reviews (snd (create_reviews new_id now review current_user db))) =
     (case fst (create_reviews new_id now review current_user db) of
        Inl e \<Rightarrow> map ReviewModel.id' (reviews db)
      | Inr r \<Rightarrow> map ReviewModel.id' (reviews db) @ [new_id])"
  using first_active_product_db_get
  by (fastforce simp: create_reviews_def Let_def split: if_splits option.splits)

lemma delete_reviews_ids:
  "map ReviewModel.id' (reviews (snd (delete_reviews review_id current_user db))) =
     map ReviewModel.id' (reviews db)"
  by (simp add: delete_reviews_def Let_def soft_delete_ids split: option.splits)

section \<open>The rating invariant\<close>

text \<open>
  Every request, successful or not, keeps the ratings consistent when the review
  identifiers are distinct; hence so does every sequence of requests whose assigned
  identifiers are fresh.
\<close>

lemma handle_preserves_consistent:
  assumes "ratings_consistent db" and "distinct (map ReviewModel.id' (reviews db))"
  shows "ratings_consistent (handle q db)"
  using assms
  by (cases q) (simp_all add: create_preserves_consistent delete_preserves_consistent)

lemma handle_ids:
  "distinct (map ReviewModel.id' (reviews db) @ assigned_ids (q # qs)) \<Longrightarrow>
     distinct (map ReviewModel.id' (reviews (handle q db)) @ assigned_ids qs)"
  by (cases q) (auto simp: create_reviews_ids delete_reviews_ids split: sum.splits)

lemma fold_handle_consistent:
  assumes "ratings_consistent db"
      and "distinct (map ReviewModel.id' (reviews db) @ assigned_ids qs)"
  shows "ratings_consistent (fold handle qs db)"
  using assms
proof (induction qs arbitrary: db)
  case Nil
  then show ?case by simp
next
  case (Cons q qs)
  have "ratings_consistent (handle q db)"
    using Cons.prems by (intro handle_preserves_consistent) simp_all
  moreover have "distinct (map ReviewModel.id' (reviews (handle q db)) @ assigned_ids qs)"
    using Cons.prems(2) by (rule handle_ids)
  ultimately show ?case
    using Cons.IH by simp
qed


text \<open>
  Claim C1 says that after every successful request the rating of every product is
  the mean grade of its active reviews. Only the product the request names is
  recomputed: on a store where another product carries a stale rating (5, with no
  review), a successful \<open>create_reviews\<close> for product 1 leaves that rating as it was.
\<close>

theorem rating_restored_counterexample:
  "create_reviews 2 101 body2 buyer (market [] 0 5) = (Inr review2, market [review2] 2 5) \<and>
   product3 5 \<in> set (products (market [review2] 2 5)) \<and>
   mean_active_grade (ProductModel.id' (product3 5)) (reviews (market [review2] 2 5)) = 0 \<and>
   ProductModel.rating (product3 5) \<noteq>
     mean_active_grade (ProductModel.id' (product3 5)) (reviews (market [review2] 2 5))"
  by (simp add: create_reviews_def mean_active_grade_def example_defs query_defs Let_def)

text \<open>
  Claim C1, as amended. After a successful \<open>create_reviews\<close> or \<open>delete_reviews\<close> the
  stored rating of the product the created or deleted review belongs to equals the
  arithmetic mean of \<open>grade\<close> over that product's active reviews, or 0 when it has
  none, whatever the store held before. For every product the same holds after the
  request provided it held for every product before it (\<open>ratings_consistent\<close>) and,
  for the deletion, the review identifiers are distinct (the primary key).
\<close>

theorem rating_restored:
  "(\<forall>r db'. create_reviews new_id now review current_user db = (Inr r, db') \<longrightarrow>
      (\<forall>p \<in> set (products db'). ProductModel.id' p = ReviewCreate.product_id review \<longrightarrow>
          ProductModel.rating p = mean_active_grade (ProductModel.id' p) (reviews db')) \<and>
      (ratings_consistent db \<longrightarrow> ratings_consistent db')) \<and>
   (\<forall>m db'. delete_reviews review_id admin_user db = (Inr m, db') \<longrightarrow>
      (\<exists>rv \<in> set (reviews db). ReviewModel.id' rv = review_id \<and> ReviewModel.is_active rv \<and>
          (\<forall>p \<in> set (products db'). ProductModel.id' p = ReviewModel.product_id rv \<longrightarrow>
             ProductModel.rating p = mean_active_grade (ProductModel.id' p) (reviews db'))) \<and>
      (ratings_consistent db \<and> distinct (map ReviewModel.id' (reviews db)) \<longrightarrow>
         ratings_consistent db'))"
proof (intro conjI allI impI)
  fix r db'
  assume c: "create_reviews new_id now review current_user db = (Inr r, db')"
  then have "fst (create_reviews new_id now review current_user db) = Inr r" by simp
  then have ok: "role current_user = ''buyer''"
      "product_available (ReviewCreate.product_id review) db"
      "1 \<le> ReviewCreate.grade review" "ReviewCreate.grade review \<le> 5"
    using create_reviews_Inr_D by blast+
  show "\<forall>p \<in> set (products db'). ProductModel.id' p = ReviewCreate.product_id review \<longrightarrow>
          ProductModel.rating p = mean_active_grade (ProductModel.id' p) (reviews db')"
    using c unfolding create_reviews_Inr [OF ok]
    by (auto simp: Let_def set_rating_def avg_rating_mean)
  show "ratings_consistent db'" if "ratings_consistent db"
    using create_preserves_consistent [OF that, of new_id now review current_user] c by simp
next
  fix m db'
  assume d: "delete_reviews review_id admin_user db = (Inr m, db')"
  then have "fst (delete_reviews review_id admin_user db) = Inr m" by simp
  then obtain rv p where ok: "role admin_user = ''admin''"
      "first_active_review review_id (reviews db) = Some rv"
      "db_get (ReviewModel.product_id rv) (products db) = Some p"
    using delete_reviews_Inr_D by blast
  have "\<forall>p \<in> set (products db'). ProductModel.id' p = ReviewModel.product_id rv \<longrightarrow>
          ProductModel.rating p = mean_active_grade (ProductModel.id' p) (reviews db')"
    using d unfolding delete_reviews_Inr [OF ok]
    by (auto simp: set_rating_def avg_rating_mean)
  then show "\<exists>rv \<in> set (reviews db). ReviewModel.id' rv = review_id \<and> ReviewModel.is_active rv \<and>
          (\<forall>p \<in> set (products db'). ProductModel.id' p = ReviewModel.product_id rv \<longrightarrow>
             ProductModel.rating p = mean_active_grade (ProductModel.id' p) (reviews db'))"
    using first_active_review_Some [OF ok(2)] by blast
  show "ratings_consistent db'"
    if "ratings_consistent db \<and> distinct (map ReviewModel.id' (reviews db))"
    using delete_preserves_consistent [of db review_id admin_user] that d by simp
qed

theorem rating_restored_witness:
  "ratings_consistent (market [review1, review3, review4] 4 5) \<and>
   distinct (map ReviewModel.id' [review1, review3, review4, review2]) \<and>
   create_reviews 2 101 body2 buyer (market [review1, review3, review4] 4 5) =
     (Inr review2, market [review1, review3, review4, review2] 3 5) \<and>
   ratings_consistent (market [review1, review3, review4, review2] 3 5) \<and>
   delete_reviews 1 admin (market [review1, review3, review4, review2] 3 5) =
     (Inr [(''message'', ''Review deleted'')],
      market [review1\<lparr>ReviewModel.is_active := False\<rparr>, review3, review4, review2] 2 5) \<and>
   ratings_consistent
     (market [review1\<lparr>ReviewModel.is_active := False\<rparr>, review3, review4, review2] 2 5)"
proof -
  have c: "create_reviews 2 101 body2 buyer (market [review1, review3, review4] 4 5) =
     (Inr review2, market [review1, review3, review4, review2] 3 5)"
    by (simp add: create_reviews_def example_defs query_defs Let_def)
  have d: "delete_reviews 1 admin (market [review1, review3, review4, review2] 3 5) =
     (Inr [(''message'', ''Review deleted'')],
      market [review1\<lparr>ReviewModel.is_active := False\<rparr>, review3, review4, review2] 2 5)"
    by (simp add: delete_reviews_def example_defs query_defs Let_def)
  have i: "ratings_consistent (market [review1, review3, review4] 4 5)"
    by (simp add: ratings_consistent_def mean_active_grade_def example_defs Let_def)
  have u: "distinct (map ReviewModel.id' [review1, review3, review4, review2])"
    by (simp add: example_defs)
  have i1: "ratings_consistent (market [review1, review3, review4, review2] 3 5)"
    using rating_restored [of 2 101 body2 buyer "market [review1, review3, review4] 4 5" 1 admin]
      c i by blast
  have i2: "ratings_consistent
     (market [review1\<lparr>ReviewModel.is_active := False\<rparr>, review3, review4, review2] 2 5)"
    using rating_restored [of 2 101 body2 buyer
            "market [review1, review3, review4, review2] 3 5" 1 admin] d i1 u
    by (simp add: market_def)
  from c d i i1 i2 u show ?thesis by simp
qed

section \<open>Listings\<close>

lemma mset_order_by_desc: "mset (order_by_desc rs) = mset rs"
  by (simp add: order_by_desc_def)

lemma sorted_order_by_desc:
  "sorted_wrt (\<lambda>a b. ReviewModel.comment_date a \<ge> ReviewModel.comment_date b) (order_by_desc rs)"
proof -
  have "sorted (map ReviewModel.comment_date (sort_key ReviewModel.comment_date rs))"
    by (rule sorted_sort_key)
  then show ?thesis
    by (simp add: order_by_desc_def sorted_wrt_rev sorted_map)
qed

text \<open>
  Claim C3. \<open>get_reviews_by_product\<close> raises 404 when no product with the given
  identifier exists or the product is inactive and leaves the store as it was.
  Otherwise it returns exactly the reviews of that product that are active (as a
  multiset of rows), most recent \<open>comment_date\<close> first.
\<close>

theorem get_reviews_by_product_spec:
  "(\<not> product_available pid db \<longrightarrow>
      get_reviews_by_product pid db =
        (Inl (HTTPException HTTP_404_NOT_FOUND ''Product not found or inactive''), db)) \<and>
   (product_available pid db \<longrightarrow>
      (\<exists>rs. get_reviews_by_product pid db = (Inr rs, db) \<and>
         mset rs = filter_mset (\<lambda>r. ReviewModel.product_id r = pid \<and> ReviewModel.is_active r)
                     (mset (reviews db)) \<and>
         sorted_wrt (\<lambda>a b. ReviewModel.comment_date a \<ge> ReviewModel.comment_date b) rs))"
proof (intro conjI impI)
  assume "\<not> product_available pid db"
  then have "first_active_product pid (products db) = None"
    by (simp add: first_active_product_None)
  then show "get_reviews_by_product pid db =
        (Inl (HTTPException HTTP_404_NOT_FOUND ''Product not found or inactive''), db)"
    by (simp add: get_reviews_by_product_def)
next
  assume "product_available pid db"
  then obtain p where "first_active_product pid (products db) = Some p"
    using first_active_product_None [of pid db] by auto
  then have "get_reviews_by_product pid db
               = (Inr (order_by_desc (active_reviews_of pid (reviews db))), db)"
    by (simp add: get_reviews_by_product_def)
  moreover have "mset (order_by_desc (active_reviews_of pid (reviews db))) =
      filter_mset (\<lambda>r. ReviewModel.product_id r = pid \<and> ReviewModel.is_active r)
        (mset (reviews db))"
    by (simp add: mset_order_by_desc active_reviews_of_def)
  ultimately show "\<exists>rs. get_reviews_by_product pid db = (Inr rs, db) \<and>
         mset rs = filter_mset (\<lambda>r. ReviewModel.product_id r = pid \<and> ReviewModel.is_active r)
                     (mset (reviews db)) \<and>
         sorted_wrt (\<lambda>a b. ReviewModel.comment_date a \<ge> ReviewModel.comment_date b) rs"
    using sorted_order_by_desc by blast
qed

theorem get_reviews_by_product_spec_witness:
  "\<not> product_available 2 (shop [review1, review2] 3) \<and>
   get_reviews_by_product 2 (shop [review1, review2] 3) =
     (Inl (HTTPException HTTP_404_NOT_FOUND ''Product not found or inactive''),
      shop [review1, review2] 3) \<and>
   \<not> product_available 5 (shop [review1, review2] 3) \<and>
   get_reviews_by_product 5 (shop [review1, review2] 3) =
     (Inl (HTTPException HTTP_404_NOT_FOUND ''Product not found or inactive''),
      shop [review1, review2] 3) \<and>
   product_available 1 (shop [review1, review2] 3) \<and>
   get_reviews_by_product 1 (shop [review1, review2] 3) =
     (Inr [review2, review1], shop [review1, review2] 3)"
proof -
  have a: "\<not> product_available 2 (shop [review1, review2] 3)"
      "\<not> product_available 5 (shop [review1, review2] 3)"
      "product_available 1 (shop [review1, review2] 3)"
    by (simp_all add: product_available_def example_defs)
  have e: "get_reviews_by_product 1 (shop [review1, review2] 3) =
     (Inr [review2, review1], shop [review1, review2] 3)"
    by (simp add: get_reviews_by_product_def order_by_desc_def example_defs query_defs)
  show ?thesis
    using a e get_reviews_by_product_spec [of 2 "shop [review1, review2] 3"]
      get_reviews_by_product_spec [of 5 "shop [review1, review2] 3"]
      get_reviews_by_product_spec [of 1 "shop [review1, review2] 3"]
    by simp
qed

text \<open>
  Claim C4. \<open>get_all_reviews\<close> returns exactly the active reviews of the store (as a
  multiset of rows); no inactive review is in its result, nor in a result of
  \<open>get_reviews_by_product\<close>.
\<close>

theorem listings_only_active:
  "mset (fst (get_all_reviews db)) = filter_mset ReviewModel.is_active (mset (reviews db)) \<and>
   (\<forall>r \<in> set (fst (get_all_reviews db)). ReviewModel.is_active r) \<and>
   (\<forall>pid rs db'. get_reviews_by_product pid db = (Inr rs, db') \<longrightarrow>
       (\<forall>r \<in> set rs. ReviewModel.is_active r))"
proof (intro conjI allI impI)
  show "mset (fst (get_all_reviews db)) = filter_mset ReviewModel.is_active (mset (reviews db))"
    by (simp add: get_all_reviews_def)
  show "\<forall>r \<in> set (fst (get_all_reviews db)). ReviewModel.is_active r"
    by (simp add: get_all_reviews_def)
next
  fix pid rs db'
  assume "get_reviews_by_product pid db = (Inr rs, db')"
  then have "mset rs = mset (active_reviews_of pid (reviews db))"
    by (auto simp: get_reviews_by_product_def mset_order_by_desc split: option.splits)
  then have "set rs = set (active_reviews_of pid (reviews db))"
    by (rule mset_eq_setD)
  then show "\<forall>r \<in> set rs. ReviewModel.is_active r"
    by (simp add: active_reviews_of_def)
qed

theorem listings_only_active_witness:
  "fst (get_all_reviews (shop [review1\<lparr>ReviewModel.is_active := False\<rparr>, review2] 2)) = [review2] \<and>
   get_reviews_by_product 1 (shop [review1\<lparr>ReviewModel.is_active := False\<rparr>, review2] 2) =
     (Inr [review2], shop [review1\<lparr>ReviewModel.is_active := False\<rparr>, review2] 2) \<and>
   ReviewModel.is_active review2"
proof -
  have a: "fst (get_all_reviews (shop [review1\<lparr>ReviewModel.is_active := False\<rparr>, review2] 2))
             = [review2]"
    by (simp add: get_all_reviews_def example_defs)
  have b: "get_reviews_by_product 1 (shop [review1\<lparr>ReviewModel.is_active := False\<rparr>, review2] 2) =
     (Inr [review2], shop [review1\<lparr>ReviewModel.is_active := False\<rparr>, review2] 2)"
    by (simp add: get_reviews_by_product_def order_by_desc_def example_defs query_defs)
  show ?thesis
    using a b listings_only_active [of "shop [review1\<lparr>ReviewModel.is_active := False\<rparr>, review2] 2"]
    by auto
qed

section \<open>Creating a review\<close>

text \<open>
  Claim C2. A request by a caller whose role is buyer, for a product that exists and
  is active, with a grade from 1 to 5 succeeds. It appends a new active review with
  the caller's identifier and the comment, grade and product of the request, sets the
  rating of that product to the mean grade of the reviews of the new store that
  belong to that product and are active (\<open>mean_active_grade\<close>), leaves every other
  product row as it was, and returns the new review. The store of the witness holds a
  soft-deleted review of the product and an active review of another product; neither
  is counted.
\<close>

theorem create_reviews_succeeds:
  assumes "role current_user = ''buyer''"
      and "product_available (ReviewCreate.product_id review) db"
      and "1 \<le> ReviewCreate.grade review \<and> ReviewCreate.grade review \<le> 5"
  shows "\<exists>new_review db'.
     create_reviews new_id now review current_user db = (Inr new_review, db') \<and>
     new_review =
       \<lparr>ReviewModel.id' = new_id,
        ReviewModel.comment = ReviewCreate.comment review,
        ReviewModel.grade = ReviewCreate.grade review,
        ReviewModel.user_id = UserModel.id' current_user,
        ReviewModel.product_id = ReviewCreate.product_id review,
        ReviewModel.comment_date = now,
        ReviewModel.is_active = True\<rparr> \<and>
     reviews db' = reviews db @ [new_review] \<and>
     products db' =
       map (\<lambda>p. if ProductModel.id' p = ReviewCreate.product_id review
                then p\<lparr>ProductModel.rating :=
                        mean_active_grade (ReviewCreate.product_id review) (reviews db')\<rparr>
                else p) (products db)"
  using assms
  by (simp add: create_reviews_Inr Let_def set_rating_def avg_rating_mean)

theorem create_reviews_succeeds_witness:
  "role buyer = ''buyer'' \<and>
   product_available (ReviewCreate.product_id body2) (market [review1, review3, review4] 4 5) \<and>
   1 \<le> ReviewCreate.grade body2 \<and> ReviewCreate.grade body2 \<le> 5 \<and>
   create_reviews 2 101 body2 buyer (market [review1, review3, review4] 4 5) =
     (Inr review2, market [review1, review3, review4, review2] 3 5)"
proof -
  have h: "role buyer = ''buyer''"
      "product_available (ReviewCreate.product_id body2) (market [review1, review3, review4] 4 5)"
      "1 \<le> ReviewCreate.grade body2 \<and> ReviewCreate.grade body2 \<le> 5"
    by (simp_all add: example_defs product_available_def)
  have m: "mean_active_grade 1 [review1, review3, review4, review2] = 3"
    by (simp add: mean_active_grade_def example_defs)
  show ?thesis
    using h create_reviews_succeeds [OF h, of 2 101] m
    by (auto simp: example_defs)
qed

text \<open>
  Claim C5 says that every request with a grade outside 1..5 fails with 422. The
  grade is checked third: a caller who is not a buyer gets 403 for the grade 0.
\<close>

theorem create_reviews_grade_check_counterexample:
  "ReviewCreate.grade (body2\<lparr>ReviewCreate.grade := 0\<rparr>) < 1 \<and>
   fst (create_reviews 2 101 (body2\<lparr>ReviewCreate.grade := 0\<rparr>) admin (shop [] 0)) =
     Inl (HTTPException HTTP_403_FORBIDDEN ''Only users with role 'buyer' can add reviews'') \<and>
   fst (create_reviews 2 101 (body2\<lparr>ReviewCreate.grade := 0\<rparr>) admin (shop [] 0)) \<noteq>
     Inl (HTTPException HTTP_422_UNPROCESSABLE_CONTENT grade_detail)"
  by (simp add: create_reviews_def example_defs)

text \<open>
  Claim C5, as amended. For a request by a buyer for a product that exists and is
  active, \<open>create_reviews\<close> raises 422 when the grade is outside 1..5 (such as 0, 6
  or -1) and succeeds when the grade is inside 1..5. Whoever the caller and whatever
  the product, a request with a grade outside 1..5 never succeeds.
\<close>

theorem create_reviews_grade_check:
  "(role current_user = ''buyer'' \<and> product_available (ReviewCreate.product_id review) db \<and>
      (ReviewCreate.grade review < 1 \<or> ReviewCreate.grade review > 5) \<longrightarrow>
        create_reviews new_id now review current_user db =
          (Inl (HTTPException HTTP_422_UNPROCESSABLE_CONTENT grade_detail), db)) \<and>
   (ReviewCreate.grade review < 1 \<or> ReviewCreate.grade review > 5 \<longrightarrow>
        (\<forall>r. fst (create_reviews new_id now review current_user db) \<noteq> Inr r)) \<and>
   (role current_user = ''buyer'' \<and> product_available (ReviewCreate.product_id review) db \<and>
      1 \<le> ReviewCreate.grade review \<and> ReviewCreate.grade review \<le> 5 \<longrightarrow>
        (\<exists>r. fst (create_reviews new_id now review current_user db) = Inr r))"
proof (intro conjI impI allI)
  assume a: "role current_user = ''buyer'' \<and>
      product_available (ReviewCreate.product_id review) db \<and>
      (ReviewCreate.grade review < 1 \<or> ReviewCreate.grade review > 5)"
  then obtain p where "first_active_product (ReviewCreate.product_id review) (products db) = Some p"
    using first_active_product_None [of "ReviewCreate.product_id review" db] by auto
  with a show "create_reviews new_id now review current_user db =
          (Inl (HTTPException HTTP_422_UNPROCESSABLE_CONTENT grade_detail), db)"
    by (auto simp: create_reviews_def)
next
  fix r
  assume "ReviewCreate.grade review < 1 \<or> ReviewCreate.grade review > 5"
  then show "fst (create_reviews new_id now review current_user db) \<noteq> Inr r"
    using create_reviews_Inr_D [of new_id now review current_user db r] by auto
next
  assume "role current_user = ''buyer'' \<and>
      product_available (ReviewCreate.product_id review) db \<and>
      1 \<le> ReviewCreate.grade review \<and> ReviewCreate.grade review \<le> 5"
  then show "\<exists>r. fst (create_reviews new_id now review current_user db) = Inr r"
    by (simp add: create_reviews_Inr Let_def)
qed

theorem create_reviews_grade_check_witness:
  "create_reviews 2 101 (body2\<lparr>ReviewCreate.grade := 0\<rparr>) buyer (shop [] 0) =
     (Inl (HTTPException HTTP_422_UNPROCESSABLE_CONTENT grade_detail), shop [] 0) \<and>
   create_reviews 2 101 (body2\<lparr>ReviewCreate.grade := 6\<rparr>) buyer (shop [] 0) =
     (Inl (HTTPException HTTP_422_UNPROCESSABLE_CONTENT grade_detail), shop [] 0) \<and>
   create_reviews 2 101 (body2\<lparr>ReviewCreate.grade := - 1\<rparr>) buyer (shop [] 0) =
     (Inl (HTTPException HTTP_422_UNPROCESSABLE_CONTENT grade_detail), shop [] 0) \<and>
   fst (create_reviews 2 101 (body2\<lparr>ReviewCreate.grade := 1\<rparr>) buyer (shop [] 0)) =
     Inr (review2\<lparr>ReviewModel.grade := 1\<rparr>) \<and>
   fst (create_reviews 2 101 (body2\<lparr>ReviewCreate.grade := 2\<rparr>) buyer (shop [] 0)) =
     Inr (review2\<lparr>ReviewModel.grade := 2\<rparr>) \<and>
   fst (create_reviews 2 101 (body2\<lparr>ReviewCreate.grade := 3\<rparr>) buyer (shop [] 0)) =
     Inr (review2\<lparr>ReviewModel.grade := 3\<rparr>) \<and>
   fst (create_reviews 2 101 (body2\<lparr>ReviewCreate.grade := 4\<rparr>) buyer (shop [] 0)) =
     Inr (review2\<lparr>ReviewModel.grade := 4\<rparr>) \<and>
   fst (create_reviews 2 101 (body2\<lparr>ReviewCreate.grade := 5\<rparr>) buyer (shop [] 0)) =
     Inr (review2\<lparr>ReviewModel.grade := 5\<rparr>)"
proof -
  have h: "role buyer = ''buyer''"
      "product_available (ReviewCreate.product_id (body2\<lparr>ReviewCreate.grade := g\<rparr>)) (shop [] 0)" for g
    by (simp_all add: example_defs product_available_def)
  have e:
      "fst (create_reviews 2 101 (body2\<lparr>ReviewCreate.grade := 1\<rparr>) buyer (shop [] 0)) =
         Inr (review2\<lparr>ReviewModel.grade := 1\<rparr>)"
      "fst (create_reviews 2 101 (body2\<lparr>ReviewCreate.grade := 2\<rparr>) buyer (shop [] 0)) =
         Inr (review2\<lparr>ReviewModel.grade := 2\<rparr>)"
      "fst (create_reviews 2 101 (body2\<lparr>ReviewCreate.grade := 3\<rparr>) buyer (shop [] 0)) =
         Inr (review2\<lparr>ReviewModel.grade := 3\<rparr>)"
      "fst (create_reviews 2 101 (body2\<lparr>ReviewCreate.grade := 4\<rparr>) buyer (shop [] 0)) =
         Inr (review2\<lparr>ReviewModel.grade := 4\<rparr>)"
      "fst (create_reviews 2 101 (body2\<lparr>ReviewCreate.grade := 5\<rparr>) buyer (shop [] 0)) =
         Inr (review2\<lparr>ReviewModel.grade := 5\<rparr>)"
    by (simp_all add: create_reviews_def example_defs query_defs Let_def)
  show ?thesis
    using h e
      create_reviews_grade_check [of buyer "body2\<lparr>ReviewCreate.grade := 0\<rparr>" "shop [] 0" 2 101]
      create_reviews_grade_check [of buyer "body2\<lparr>ReviewCreate.grade := 6\<rparr>" "shop [] 0" 2 101]
      create_reviews_grade_check [of buyer "body2\<lparr>ReviewCreate.grade := - 1\<rparr>" "shop [] 0" 2 101]
      create_reviews_grade_check [of buyer "body2\<lparr>ReviewCreate.grade := 1\<rparr>" "shop [] 0" 2 101]
      create_reviews_grade_check [of buyer "body2\<lparr>ReviewCreate.grade := 2\<rparr>" "shop [] 0" 2 101]
      create_reviews_grade_check [of buyer "body2\<lparr>ReviewCreate.grade := 3\<rparr>" "shop [] 0" 2 101]
      create_reviews_grade_check [of buyer "body2\<lparr>ReviewCreate.grade := 4\<rparr>" "shop [] 0" 2 101]
      create_reviews_grade_check [of buyer "body2\<lparr>ReviewCreate.grade := 5\<rparr>" "shop [] 0" 2 101]
    by simp
qed

text \<open>
  Claim C6 says that every request naming a missing or inactive product fails with
  404. The role is checked first: a caller who is not a buyer gets 403 for a product
  that does not exist.
\<close>

theorem create_reviews_role_and_product_counterexample:
  "\<not> product_available (ReviewCreate.product_id (body2\<lparr>ReviewCreate.product_id := 3\<rparr>)) (shop [] 0) \<and>
   fst (create_reviews 2 101 (body2\<lparr>ReviewCreate.product_id := 3\<rparr>) admin (shop [] 0)) =
     Inl (HTTPException HTTP_403_FORBIDDEN ''Only users with role 'buyer' can add reviews'') \<and>
   fst (create_reviews 2 101 (body2\<lparr>ReviewCreate.product_id := 3\<rparr>) admin (shop [] 0)) \<noteq>
     Inl (HTTPException HTTP_404_NOT_FOUND ''Product not found or inactive'')"
  by (simp add: create_reviews_def example_defs product_available_def)

text \<open>
  Claim C6, as amended. \<open>create_reviews\<close> raises 403 when the caller's role is not
  buyer, and raises 404 when the caller is a buyer and the product named does not
  exist or is inactive. The store is left as it was.
\<close>

theorem create_reviews_role_and_product:
  "(role current_user \<noteq> ''buyer'' \<longrightarrow>
      create_reviews new_id now review current_user db =
        (Inl (HTTPException HTTP_403_FORBIDDEN
                ''Only users with role 'buyer' can add reviews''), db)) \<and>
   (role current_user = ''buyer'' \<and> \<not> product_available (ReviewCreate.product_id review) db \<longrightarrow>
      create_reviews new_id now review current_user db =
        (Inl (HTTPException HTTP_404_NOT_FOUND ''Product not found or inactive''), db))"
proof (intro conjI impI)
  assume "role current_user \<noteq> ''buyer''"
  then show "create_reviews new_id now review current_user db =
        (Inl (HTTPException HTTP_403_FORBIDDEN
                ''Only users with role 'buyer' can add reviews''), db)"
    by (simp add: create_reviews_def)
next
  assume a: "role current_user = ''buyer'' \<and>
      \<not> product_available (ReviewCreate.product_id review) db"
  then have "first_active_product (ReviewCreate.product_id review) (products db) = None"
    by (simp add: first_active_product_None)
  with a show "create_reviews new_id now review current_user db =
        (Inl (HTTPException HTTP_404_NOT_FOUND ''Product not found or inactive''), db)"
    by (simp add: create_reviews_def)
qed

theorem create_reviews_role_and_product_witness:
  "role admin \<noteq> ''buyer'' \<and>
   create_reviews 2 101 body2 admin (shop [] 0) =
     (Inl (HTTPException HTTP_403_FORBIDDEN
             ''Only users with role 'buyer' can add reviews''), shop [] 0) \<and>
   role buyer = ''buyer'' \<and>
   \<not> product_available 2 (shop [] 0) \<and>
   create_reviews 2 101 (body2\<lparr>ReviewCreate.product_id := 2\<rparr>) buyer (shop [] 0) =
     (Inl (HTTPException HTTP_404_NOT_FOUND ''Product not found or inactive''), shop [] 0) \<and>
   \<not> product_available 3 (shop [] 0) \<and>
   create_reviews 2 101 (body2\<lparr>ReviewCreate.product_id := 3\<rparr>) buyer (shop [] 0) =
     (Inl (HTTPException HTTP_404_NOT_FOUND ''Product not found or inactive''), shop [] 0)"
proof -
  have h: "role admin \<noteq> ''buyer''" "role buyer = ''buyer''"
      "\<not> product_available 2 (shop [] 0)" "\<not> product_available 3 (shop [] 0)"
    by (simp_all add: example_defs product_available_def)
  show ?thesis
    using h create_reviews_role_and_product [of admin 2 101 body2 "shop [] 0"]
      create_reviews_role_and_product [of buyer 2 101 "body2\<lparr>ReviewCreate.product_id := 2\<rparr>" "shop [] 0"]
      create_reviews_role_and_product [of buyer 2 101 "body2\<lparr>ReviewCreate.product_id := 3\<rparr>" "shop [] 0"]
    by simp
qed

text \<open>
  Claim C9. The outcome of \<open>create_reviews\<close> is decided by the role check first, the
  product check second and the grade check third: a caller who is not a buyer gets
  403 whatever the product and the grade are, and a buyer naming a missing or
  inactive product gets 404 even when the grade is out of range.
\<close>

theorem create_reviews_check_order:
  "fst (create_reviews new_id now review current_user db) =
     (if role current_user \<noteq> ''buyer'' then
        Inl (HTTPException HTTP_403_FORBIDDEN ''Only users with role 'buyer' can add reviews'')
      else if \<not> product_available (ReviewCreate.product_id review) db then
        Inl (HTTPException HTTP_404_NOT_FOUND ''Product not found or inactive'')
      else if ReviewCreate.grade review < 1 \<or> ReviewCreate.grade review > 5 then
        Inl (HTTPException HTTP_422_UNPROCESSABLE_CONTENT grade_detail)
      else
        Inr \<lparr>ReviewModel.id' = new_id,
             ReviewModel.comment = ReviewCreate.comment review,
             ReviewModel.grade = ReviewCreate.grade review,
             ReviewModel.user_id = UserModel.id' current_user,
             ReviewModel.product_id = ReviewCreate.product_id review,
             ReviewModel.comment_date = now,
             ReviewModel.is_active = True\<rparr>)"
proof (cases "product_available (ReviewCreate.product_id review) db")
  case False
  then have "first_active_product (ReviewCreate.product_id review) (products db) = None"
    by (simp add: first_active_product_None)
  with False show ?thesis by (simp add: create_reviews_def)
next
  case True
  then obtain p where p: "first_active_product (ReviewCreate.product_id review) (products db) = Some p"
    using first_active_product_None [of "ReviewCreate.product_id review" db] by auto
  then obtain q where "db_get (ReviewCreate.product_id review) (products db) = Some q"
    using first_active_product_db_get by blast
  with True p show ?thesis by (simp add: create_reviews_def Let_def)
qed

theorem create_reviews_check_order_witness:
  "fst (create_reviews 2 101 (body2\<lparr>ReviewCreate.product_id := 3, ReviewCreate.grade := 9\<rparr>)
          admin (shop [] 0)) =
     Inl (HTTPException HTTP_403_FORBIDDEN ''Only users with role 'buyer' can add reviews'') \<and>
   fst (create_reviews 2 101 (body2\<lparr>ReviewCreate.product_id := 3, ReviewCreate.grade := 9\<rparr>)
          buyer (shop [] 0)) =
     Inl (HTTPException HTTP_404_NOT_FOUND ''Product not found or inactive'') \<and>
   fst (create_reviews 2 101 (body2\<lparr>ReviewCreate.product_id := 2, ReviewCreate.grade := 9\<rparr>)
          buyer (shop [] 0)) =
     Inl (HTTPException HTTP_404_NOT_FOUND ''Product not found or inactive'') \<and>
   fst (create_reviews 2 101 (body2\<lparr>ReviewCreate.grade := 9\<rparr>) buyer (shop [] 0)) =
     Inl (HTTPException HTTP_422_UNPROCESSABLE_CONTENT grade_detail)"
  using create_reviews_check_order [of 2 101
          "body2\<lparr>ReviewCreate.product_id := 3, ReviewCreate.grade := 9\<rparr>" admin "shop [] 0"]
    create_reviews_check_order [of 2 101
          "body2\<lparr>ReviewCreate.product_id := 3, ReviewCreate.grade := 9\<rparr>" buyer "shop [] 0"]
    create_reviews_check_order [of 2 101
          "body2\<lparr>ReviewCreate.product_id := 2, ReviewCreate.grade := 9\<rparr>" buyer "shop [] 0"]
    create_reviews_check_order [of 2 101 "body2\<lparr>ReviewCreate.grade := 9\<rparr>" buyer "shop [] 0"]
  by (simp add: example_defs product_available_def)

section \<open>Deleting a review\<close>

lemma soft_delete_inactive:
  "\<not> list_ex (\<lambda>r. ReviewModel.id' r = rid \<and> ReviewModel.is_active r) (soft_delete rid rs)"
  by (induction rs) (simp_all add: soft_delete_def)

lemma soft_delete_unavailable:
  "\<not> review_available rid \<lparr>reviews = soft_delete rid rs, products = ps\<rparr>"
  by (simp add: review_available_def soft_delete_inactive)

text \<open>
  Claim C7 says that every request naming a missing or inactive review fails with
  404. The role is checked first: a caller who is not an admin gets 403 for a review
  that does not exist.
\<close>

theorem delete_reviews_failures_counterexample:
  "\<not> review_available 3 (shop [review1] 4) \<and>
   fst (delete_reviews 3 buyer (shop [review1] 4)) =
     Inl (HTTPException HTTP_403_FORBIDDEN ''Only admins can delete reviews'') \<and>
   fst (delete_reviews 3 buyer (shop [review1] 4)) \<noteq>
     Inl (HTTPException HTTP_404_NOT_FOUND ''Reviews not found or inactive'')"
  by (simp add: delete_reviews_def example_defs review_available_def)

text \<open>
  Claim C7, as amended. \<open>delete_reviews\<close> raises 403 when the caller's role is not
  admin, and raises 404 when the caller is an admin and the review named does not
  exist or is already inactive. Hence after a successful deletion the same request
  raises 404.
\<close>

theorem delete_reviews_failures:
  "(role current_user \<noteq> ''admin'' \<longrightarrow>
      delete_reviews review_id current_user db =
        (Inl (HTTPException HTTP_403_FORBIDDEN ''Only admins can delete reviews''), db)) \<and>
   (role current_user = ''admin'' \<and> \<not> review_available review_id db \<longrightarrow>
      delete_reviews review_id current_user db =
        (Inl (HTTPException HTTP_404_NOT_FOUND ''Reviews not found or inactive''), db)) \<and>
   (\<forall>m db'. delete_reviews review_id current_user db = (Inr m, db') \<longrightarrow>
      delete_reviews review_id current_user db' =
        (Inl (HTTPException HTTP_404_NOT_FOUND ''Reviews not found or inactive''), db'))"
proof -
  have nf: "delete_reviews review_id current_user s =
        (Inl (HTTPException HTTP_404_NOT_FOUND ''Reviews not found or inactive''), s)"
    if "role current_user = ''admin''" and "\<not> review_available review_id s" for s
  proof -
    have "first_active_review review_id (reviews s) = None"
      using that(2) by (simp add: first_active_review_None)
    with that(1) show ?thesis by (simp add: delete_reviews_def)
  qed
  have twice: "delete_reviews review_id current_user db' =
        (Inl (HTTPException HTTP_404_NOT_FOUND ''Reviews not found or inactive''), db')"
    if d: "delete_reviews review_id current_user db = (Inr m, db')" for m db'
  proof -
    from d have "fst (delete_reviews review_id current_user db) = Inr m" by simp
    then obtain rv p where ok: "role current_user = ''admin''"
        "first_active_review review_id (reviews db) = Some rv"
        "db_get (ReviewModel.product_id rv) (products db) = Some p"
      using delete_reviews_Inr_D by blast
    have "\<not> review_available review_id db'"
      using d unfolding delete_reviews_Inr [OF ok] by (auto simp: soft_delete_unavailable)
    with ok(1) show ?thesis by (rule nf)
  qed
  have forbidden: "delete_reviews review_id current_user db =
        (Inl (HTTPException HTTP_403_FORBIDDEN ''Only admins can delete reviews''), db)"
    if "role current_user \<noteq> ''admin''"
    using that by (simp add: delete_reviews_def)
  show ?thesis
  proof (intro conjI allI impI)
    assume "role current_user \<noteq> ''admin''"
    then show "delete_reviews review_id current_user db =
        (Inl (HTTPException HTTP_403_FORBIDDEN ''Only admins can delete reviews''), db)"
      by (rule forbidden)
  next
    assume "role current_user = ''admin'' \<and> \<not> review_available review_id db"
    then show "delete_reviews review_id current_user db =
        (Inl (HTTPException HTTP_404_NOT_FOUND ''Reviews not found or inactive''), db)"
      using nf by blast
  next
    fix m db'
    assume "delete_reviews review_id current_user db = (Inr m, db')"
    then show "delete_reviews review_id current_user db' =
        (Inl (HTTPException HTTP_404_NOT_FOUND ''Reviews not found or inactive''), db')"
      by (rule twice)
  qed
qed

theorem delete_reviews_failures_witness:
  "role buyer \<noteq> ''admin'' \<and>
   delete_reviews 1 buyer (shop [review1, review2] 3) =
     (Inl (HTTPException HTTP_403_FORBIDDEN ''Only admins can delete reviews''),
      shop [review1, review2] 3) \<and>
   role admin = ''admin'' \<and> \<not> review_available 3 (shop [review1, review2] 3) \<and>
   delete_reviews 3 admin (shop [review1, review2] 3) =
     (Inl (HTTPException HTTP_404_NOT_FOUND ''Reviews not found or inactive''),
      shop [review1, review2] 3) \<and>
   delete_reviews 1 admin (shop [review1, review2] 3) =
     (Inr [(''message'', ''Review deleted'')],
      shop [review1\<lparr>ReviewModel.is_active := False\<rparr>, review2] 2) \<and>
   \<not> review_available 1 (shop [review1\<lparr>ReviewModel.is_active := False\<rparr>, review2] 2) \<and>
   delete_reviews 1 admin (shop [review1\<lparr>ReviewModel.is_active := False\<rparr>, review2] 2) =
     (Inl (HTTPException HTTP_404_NOT_FOUND ''Reviews not found or inactive''),
      shop [review1\<lparr>ReviewModel.is_active := False\<rparr>, review2] 2)"
proof -
  have h: "role buyer \<noteq> ''admin''" "role admin = ''admin''"
      "\<not> review_available 3 (shop [review1, review2] 3)"
      "\<not> review_available 1 (shop [review1\<lparr>ReviewModel.is_active := False\<rparr>, review2] 2)"
    by (simp_all add: example_defs review_available_def)
  have d: "delete_reviews 1 admin (shop [review1, review2] 3) =
     (Inr [(''message'', ''Review deleted'')],
      shop [review1\<lparr>ReviewModel.is_active := False\<rparr>, review2] 2)"
    by (simp add: delete_reviews_def example_defs query_defs Let_def)
  show ?thesis
    using h d delete_reviews_failures [of buyer 1 "shop [review1, review2] 3"]
      delete_reviews_failures [of admin 3 "shop [review1, review2] 3"]
      delete_reviews_failures [of admin 1 "shop [review1, review2] 3"]
    by simp
qed

text \<open>
  Claim C8. A successful \<open>delete_reviews\<close> returns the message \<open>Review deleted\<close>. In
  the reviews table the rows with the given identifier have \<open>is_active\<close> set to false
  and every other column as before, and all other rows are unchanged. In the products
  table only the rating of the product owning the deleted review may differ.
\<close>

theorem delete_reviews_frame:
  assumes "delete_reviews review_id current_user db = (Inr m, db')"
  shows "m = [(''message'', ''Review deleted'')] \<and>
     list_all2 (\<lambda>r r'. if ReviewModel.id' r = review_id
                        then r' = r\<lparr>ReviewModel.is_active := False\<rparr> else r' = r)
       (reviews db) (reviews db') \<and>
     (\<exists>rv \<in> set (reviews db). ReviewModel.id' rv = review_id \<and> ReviewModel.is_active rv \<and>
        list_all2 (\<lambda>p p'. if ProductModel.id' p = ReviewModel.product_id rv
                           then p' = p\<lparr>ProductModel.rating := ProductModel.rating p'\<rparr>
                           else p' = p)
          (products db) (products db'))"
proof -
  from assms have "fst (delete_reviews review_id current_user db) = Inr m" by simp
  then obtain rv p where ok: "role current_user = ''admin''"
      "first_active_review review_id (reviews db) = Some rv"
      "db_get (ReviewModel.product_id rv) (products db) = Some p"
    using delete_reviews_Inr_D by blast
  have m: "m = [(''message'', ''Review deleted'')]"
    and r: "reviews db' = soft_delete review_id (reviews db)"
    and p: "products db' = set_rating (ReviewModel.product_id rv)
              (avg_rating (ReviewModel.product_id rv) (soft_delete review_id (reviews db)))
              (products db)"
    using assms unfolding delete_reviews_Inr [OF ok] by auto
  have "list_all2 (\<lambda>r r'. if ReviewModel.id' r = review_id
                        then r' = r\<lparr>ReviewModel.is_active := False\<rparr> else r' = r)
       (reviews db) (reviews db')"
    unfolding r soft_delete_def by (simp add: list_all2_map2 list_all2_same)
  moreover have "list_all2 (\<lambda>p p'. if ProductModel.id' p = ReviewModel.product_id rv
                           then p' = p\<lparr>ProductModel.rating := ProductModel.rating p'\<rparr>
                           else p' = p)
          (products db) (products db')"
    unfolding p set_rating_def by (simp add: list_all2_map2 list_all2_same)
  ultimately show ?thesis
    using m first_active_review_Some [OF ok(2)] by blast
qed

theorem delete_reviews_frame_witness:
  "delete_reviews 1 admin (shop [review1, review2] 3) =
     (Inr [(''message'', ''Review deleted'')],
      shop [review1\<lparr>ReviewModel.is_active := False\<rparr>, review2] 2) \<and>
   list_all2 (\<lambda>r r'. if ReviewModel.id' r = 1
                        then r' = r\<lparr>ReviewModel.is_active := False\<rparr> else r' = r)
       [review1, review2] [review1\<lparr>ReviewModel.is_active := False\<rparr>, review2]"
proof -
  have d: "delete_reviews 1 admin (shop [review1, review2] 3) =
     (Inr [(''message'', ''Review deleted'')],
      shop [review1\<lparr>ReviewModel.is_active := False\<rparr>, review2] 2)"
    by (simp add: delete_reviews_def example_defs query_defs Let_def)
  show ?thesis
    using d delete_reviews_frame [OF d] by (simp add: shop_def)
qed

section \<open>Failures and the store\<close>

text \<open>
  Claim C10. When \<open>create_reviews\<close> or \<open>delete_reviews\<close> raises an
  \<open>HTTPException\<close> (403, 404 or 422) the store is the one before the request, and
  the two listings never change the store. (The only other failure of the model is
  the \<open>AttributeError\<close> of \<open>delete_reviews_AttributeError\<close>, raised after the soft
  deletion was committed, for a review whose product row does not exist.)
\<close>

theorem failures_leave_store:
  "(\<forall>s d. fst (create_reviews new_id now review current_user db) = Inl (HTTPException s d) \<longrightarrow>
      snd (create_reviews new_id now review current_user db) = db) \<and>
   (\<forall>s d. fst (delete_reviews review_id current_user db) = Inl (HTTPException s d) \<longrightarrow>
      snd (delete_reviews review_id current_user db) = db) \<and>
   snd (get_reviews_by_product pid db) = db \<and>
   snd (get_all_reviews db) = db"
proof -
  have c: "snd (create_reviews new_id now review current_user db) = db"
    if "fst (create_reviews new_id now review current_user db) = Inl (HTTPException s d)" for s d
    using that by (auto simp: create_reviews_def Let_def split: if_splits option.splits)
  have d: "snd (delete_reviews review_id current_user db) = db"
    if "fst (delete_reviews review_id current_user db) = Inl (HTTPException s d)" for s d
    using that by (auto simp: delete_reviews_def Let_def split: if_splits option.splits)
  have g: "snd (get_reviews_by_product pid db) = db"
    by (simp add: get_reviews_by_product_def split: option.splits)
  have l: "snd (get_all_reviews db) = db"
    by (simp add: get_all_reviews_def)
  show ?thesis
  proof (intro conjI allI impI)
    fix s d
    assume "fst (create_reviews new_id now review current_user db) = Inl (HTTPException s d)"
    then show "snd (create_reviews new_id now review current_user db) = db" by (rule c)
  next
    fix s d
    assume "fst (delete_reviews review_id current_user db) = Inl (HTTPException s d)"
    then show "snd (delete_reviews review_id current_user db) = db" by (rule d)
  next
    show "snd (get_reviews_by_product pid db) = db" by (rule g)
  next
    show "snd (get_all_reviews db) = db" by (rule l)
  qed
qed

theorem failures_leave_store_witness:
  "create_reviews 2 101 body2 admin (shop [review1] 4) =
     (Inl (HTTPException HTTP_403_FORBIDDEN ''Only users with role 'buyer' can add reviews''),
      shop [review1] 4) \<and>
   create_reviews 2 101 (body2\<lparr>ReviewCreate.product_id := 2\<rparr>) buyer (shop [review1] 4) =
     (Inl (HTTPException HTTP_404_NOT_FOUND ''Product not found or inactive''), shop [review1] 4) \<and>
   create_reviews 2 101 (body2\<lparr>ReviewCreate.grade := 6\<rparr>) buyer (shop [review1] 4) =
     (Inl (HTTPException HTTP_422_UNPROCESSABLE_CONTENT grade_detail), shop [review1] 4) \<and>
   delete_reviews 1 buyer (shop [review1] 4) =
     (Inl (HTTPException HTTP_403_FORBIDDEN ''Only admins can delete reviews''),
      shop [review1] 4) \<and>
   delete_reviews 5 admin (shop [review1] 4) =
     (Inl (HTTPException HTTP_404_NOT_FOUND ''Reviews not found or inactive''),
      shop [review1] 4) \<and>
   get_reviews_by_product 2 (shop [review1] 4) =
     (Inl (HTTPException HTTP_404_NOT_FOUND ''Product not found or inactive''), shop [review1] 4)"
proof -
  have f: "fst (create_reviews 2 101 body2 admin (shop [review1] 4)) =
       Inl (HTTPException HTTP_403_FORBIDDEN ''Only users with role 'buyer' can add reviews'')"
    "fst (create_reviews 2 101 (body2\<lparr>ReviewCreate.product_id := 2\<rparr>) buyer (shop [review1] 4)) =
       Inl (HTTPException HTTP_404_NOT_FOUND ''Product not found or inactive'')"
    "fst (create_reviews 2 101 (body2\<lparr>ReviewCreate.grade := 6\<rparr>) buyer (shop [review1] 4)) =
       Inl (HTTPException HTTP_422_UNPROCESSABLE_CONTENT grade_detail)"
    by (simp_all add: create_reviews_def example_defs query_defs)
  have g: "fst (delete_reviews 1 buyer (shop [review1] 4)) =
       Inl (HTTPException HTTP_403_FORBIDDEN ''Only admins can delete reviews'')"
    "fst (delete_reviews 5 admin (shop [review1] 4)) =
       Inl (HTTPException HTTP_404_NOT_FOUND ''Reviews not found or inactive'')"
    by (simp_all add: delete_reviews_def example_defs query_defs)
  have h: "fst (get_reviews_by_product 2 (shop [review1] 4)) =
       Inl (HTTPException HTTP_404_NOT_FOUND ''Product not found or inactive'')"
    by (simp add: get_reviews_by_product_def example_defs query_defs)
  have "snd (create_reviews 2 101 body2 admin (shop [review1] 4)) = shop [review1] 4"
    using failures_leave_store [of 2 101 body2 admin "shop [review1] 4" 1 2] f(1) by blast
  moreover have "snd (create_reviews 2 101 (body2\<lparr>ReviewCreate.product_id := 2\<rparr>) buyer
                        (shop [review1] 4)) = shop [review1] 4"
    using failures_leave_store [of 2 101 "body2\<lparr>ReviewCreate.product_id := 2\<rparr>" buyer
            "shop [review1] 4" 1 2] f(2) by blast
  moreover have "snd (create_reviews 2 101 (body2\<lparr>ReviewCreate.grade := 6\<rparr>) buyer
                        (shop [review1] 4)) = shop [review1] 4"
    using failures_leave_store [of 2 101 "body2\<lparr>ReviewCreate.grade := 6\<rparr>" buyer
            "shop [review1] 4" 1 2] f(3) by blast
  moreover have "snd (delete_reviews 1 buyer (shop [review1] 4)) = shop [review1] 4"
    "snd (get_reviews_by_product 2 (shop [review1] 4)) = shop [review1] 4"
    using failures_leave_store [of 2 101 body2 buyer "shop [review1] 4" 1 2] g(1) by blast+
  moreover have "snd (delete_reviews 5 admin (shop [review1] 4)) = shop [review1] 4"
    using failures_leave_store [of 2 101 body2 admin "shop [review1] 4" 5 2] g(2) by blast
  ultimately show ?thesis
    using f g h by (simp add: prod_eq_iff)
qed

end
